theory Spec2Isabelle
  imports Complex_Main
begin

section \<open>Run configuration (playwright.config.ts)\<close>

text \<open>
  The configuration object is a function of one input, the environment variable
  \<^verbatim>\<open>process.env.CI\<close>. Node gives an environment variable as a string, or as
  \<^verbatim>\<open>undefined\<close> when it is not in the environment: \<open>string option\<close>.
  JavaScript coerces it to a boolean in \<^verbatim>\<open>!!x\<close> and in \<^verbatim>\<open>x ? a : b\<close>:
  \<^verbatim>\<open>undefined\<close> and the empty string are falsy, every other string is truthy.
  The same coercion decides \<^verbatim>\<open>expect(x).toBeTruthy()\<close> on an attribute value, which is
  a string or \<^verbatim>\<open>null\<close>.
\<close>

definition truthy :: "string option \<Rightarrow> bool" where
  "truthy v = (case v of None \<Rightarrow> False | Some s \<Rightarrow> s \<noteq> [])"

record use_options =
  baseURL :: string
  trace :: string
  screenshot :: string

record project =
  project_name :: string
  channel :: string
  headless :: bool
  launch_args :: "string list"

record config =
  testDir :: string
  fullyParallel :: bool
  forbidOnly :: bool
  retries :: nat
  workers :: "nat option"  \<comment> \<open>\<open>None\<close> is \<^verbatim>\<open>undefined\<close>: the runner's own default\<close>
  reporter :: "(string \<times> string \<times> string) list"
  use :: use_options
  projects :: "project list"

definition defineConfig :: "string option \<Rightarrow> config" where
  "defineConfig CI =
     \<lparr> testDir = ''./tests'',
       fullyParallel = True,
       forbidOnly = (\<not> \<not> truthy CI),
       retries = (if truthy CI then 1 else 0),
       workers = (if truthy CI then Some 1 else None),
       reporter = [(''html'', ''open'', ''never'')],
       use = \<lparr> baseURL = ''https://staging-website.privilee.ae'',
               trace = ''on-first-retry'',
               screenshot = ''only-on-failure'' \<rparr>,
       projects =
         [\<lparr> project_name = ''chromium'',
            channel = ''chromium'',
            headless = False,
            launch_args = [''--disable-blink-features=AutomationControlled''] \<rparr>] \<rparr>"

section \<open>Scenario outcomes\<close>

text \<open>
  A scenario body is a sequence of awaited browser calls and expectations. It ends at the
  first one that throws: a rejected call (navigation failure, an action that times out
  waiting for its element) or a failed expectation. Both carry the line of the scenario
  file that threw. A body that reaches its end passes.
\<close>

datatype failure =
    Rejected nat       \<comment> \<open>the awaited call at this line threw\<close>
  | ExpectFailed nat   \<comment> \<open>the expectation at this line was not met\<close>

type_synonym outcome = "failure + unit"

text \<open>What an awaited call that returns a value settles to.\<close>

datatype 'a settled = Resolved 'a | Rejects

definition expect :: "nat \<Rightarrow> bool \<Rightarrow> outcome" where
  "expect line ok = (if ok then Inr () else Inl (ExpectFailed line))"

definition await :: "nat \<Rightarrow> bool \<Rightarrow> outcome" where
  "await line resolved = (if resolved then Inr () else Inl (Rejected line))"

fun steps :: "outcome list \<Rightarrow> outcome" where
  "steps [] = Inr ()"
| "steps (s # ss) = (case s of Inl e \<Rightarrow> Inl e | Inr _ \<Rightarrow> steps ss)"

definition default_timeout :: nat where
  "default_timeout = 5000"

text \<open>
  Sequencing with a value: the awaited call at \<open>line\<close> either throws or hands its
  value to the rest of the body.
\<close>

definition awaited :: "nat \<Rightarrow> 'a settled \<Rightarrow> ('a \<Rightarrow> outcome) \<Rightarrow> outcome" where
  "awaited line v rest = (case v of Rejects \<Rightarrow> Inl (Rejected line) | Resolved x \<Rightarrow> rest x)"

section \<open>What a scenario reads from the page\<close>

text \<open>
  The page under test is not part of the repository. Each scenario is modelled as a
  function of the answers the browser gives to the calls of its body, one record field
  per call, named after the local variable of the source:
  \<^item> a locator narrowed with \<^verbatim>\<open>.first()\<close> is the list of elements it resolves to, in
    document order, at the moment the expectation on it settles; \<^verbatim>\<open>.first()\<close> is the
    head of that list, and it is attached when there is one;
  \<^item> \<^verbatim>\<open>locator.count()\<close> is a number, read at once and without waiting: the length
    of the list where the elements themselves are modelled;
  \<^item> an expectation with a timeout on a locator is a function from the timeout in
    milliseconds to whether it is met in that time (an expectation without a
    \<^verbatim>\<open>timeout\<close> option waits \<open>default_timeout\<close>, the runner's default, as the
    configuration sets none);
  \<^item> \<^verbatim>\<open>page.goto\<close>, \<^verbatim>\<open>waitForLoadState\<close> and \<^verbatim>\<open>click\<close> resolve or throw;
    \<^verbatim>\<open>textContent\<close> and \<^verbatim>\<open>getAttribute\<close> resolve to a string or \<^verbatim>\<open>null\<close>, or throw.
  Calls that only read (\<^verbatim>\<open>count\<close>, \<^verbatim>\<open>evaluate\<close>, \<^verbatim>\<open>boundingBox\<close>, \<^verbatim>\<open>Date.now\<close>),
  \<^verbatim>\<open>waitForTimeout\<close> and the creation and closing of a context are taken to return.
\<close>

record element =
  visible_within :: "nat \<Rightarrow> bool"  \<comment> \<open>is it visible within this many milliseconds\<close>
  href :: "string option"          \<comment> \<open>its \<^verbatim>\<open>href\<close> attribute, \<open>None\<close> for \<^verbatim>\<open>null\<close>\<close>

definition first_of :: "'a list \<Rightarrow> 'a option" where
  "first_of xs = (case xs of [] \<Rightarrow> None | x # _ \<Rightarrow> Some x)"

definition toBeVisible :: "element option \<Rightarrow> nat \<Rightarrow> bool" where
  "toBeVisible e timeout = (case e of None \<Rightarrow> False | Some x \<Rightarrow> visible_within x timeout)"

definition toBeAttached :: "element option \<Rightarrow> bool" where
  "toBeAttached e = (case e of None \<Rightarrow> False | Some _ \<Rightarrow> True)"

definition getAttribute_href :: "element option \<Rightarrow> string option settled" where
  "getAttribute_href e = (case e of None \<Rightarrow> Rejects | Some x \<Rightarrow> Resolved (href x))"

text \<open>\<^verbatim>\<open>expect(href).toMatch(/^\//)\<close>: a string whose first character is a slash.\<close>

definition toMatch_leading_slash :: "string option \<Rightarrow> bool" where
  "toMatch_leading_slash v =
     (case v of None \<Rightarrow> False | Some s \<Rightarrow> (case s of [] \<Rightarrow> False | c # _ \<Rightarrow> c = CHR ''/''))"

section \<open>Scenario: should load page with all core UI elements visible (lines 4-20)\<close>

record core_page =
  core_goto :: bool                  \<comment> \<open>line 7: \<^verbatim>\<open>page.goto("/map")\<close> resolved\<close>
  core_header :: "element list"      \<comment> \<open>line 9: \<^verbatim>\<open>page.locator("header")\<close>\<close>
  core_mapCanvas :: "element list"   \<comment> \<open>line 12: \<^verbatim>\<open>.mapboxgl-map, .mapboxgl-canvas\<close>\<close>
  core_filters :: "element list"     \<comment> \<open>line 15: buttons named pool, fitness, family, dining or waterpark\<close>
  core_joinCTA :: "element list"     \<comment> \<open>line 18: links named \<^verbatim>\<open>/join/i\<close>\<close>

definition should_load_page_with_all_core_UI_elements_visible :: "core_page \<Rightarrow> outcome" where
  "should_load_page_with_all_core_UI_elements_visible page =
     steps
       [await 7 (core_goto page),
        expect 10 (toBeVisible (first_of (core_header page)) default_timeout),
        expect 13 (toBeVisible (first_of (core_mapCanvas page)) 15000),
        expect 16 (length (core_filters page) \<ge> 1),
        expect 19 (toBeVisible (first_of (core_joinCTA page)) default_timeout)]"

section \<open>Scenario: should toggle category filters and update venue display (lines 22-57)\<close>




section \<open>Scenario: should render interactive Mapbox map (lines 59-81)\<close>




section \<open>Scenario: should load within acceptable performance thresholds (lines 83-112)\<close>

text \<open>
  \<^verbatim>\<open>Date.now()\<close> is a whole number of milliseconds. The fields of the browser's
  navigation timing entry are high-resolution timestamps in milliseconds; they and
  their differences are taken as exact real numbers.
\<close>

record navigation_timing =
  startTime :: real
  requestStart :: real
  responseStart :: real
  domContentLoadedEventEnd :: real
  loadEventEnd :: real

record performance_metrics =
  domContentLoaded :: real
  loadComplete :: real
  ttfb :: real

text \<open>The function handed to \<^verbatim>\<open>page.evaluate\<close> at lines 99-109.\<close>

definition evaluate_performanceMetrics :: "navigation_timing \<Rightarrow> performance_metrics" where
  "evaluate_performanceMetrics navigation =
     \<lparr> domContentLoaded = domContentLoadedEventEnd navigation - startTime navigation,
       loadComplete = loadEventEnd navigation - startTime navigation,
       ttfb = responseStart navigation - requestStart navigation \<rparr>"

record perf_page =
  pf_Date_now_86 :: int                     \<comment> \<open>line 86: the clock before \<^verbatim>\<open>page.goto\<close>\<close>
  pf_goto :: bool                           \<comment> \<open>line 88: resolved at \<^verbatim>\<open>domcontentloaded\<close>\<close>
  pf_Date_now_89 :: int                     \<comment> \<open>line 89: the clock when \<^verbatim>\<open>page.goto\<close> has resolved\<close>
  pf_mapCanvas_attached :: "nat \<Rightarrow> bool"     \<comment> \<open>line 94: \<^verbatim>\<open>.mapboxgl-canvas\<close>\<close>
  pf_Date_now_95 :: int                     \<comment> \<open>line 95: the clock when the canvas is attached\<close>
  pf_navigation :: navigation_timing        \<comment> \<open>line 100: the page's navigation entry\<close>

definition domLoadTime :: "perf_page \<Rightarrow> int" where
  "domLoadTime page = pf_Date_now_89 page - pf_Date_now_86 page"

definition mapRenderTime :: "perf_page \<Rightarrow> int" where
  "mapRenderTime page = pf_Date_now_95 page - pf_Date_now_86 page"

definition should_load_within_acceptable_performance_thresholds :: "perf_page \<Rightarrow> outcome" where
  "should_load_within_acceptable_performance_thresholds page =
     steps
       [await 88 (pf_goto page),
        expect 91 (domLoadTime page < 8000),
        expect 94 (pf_mapCanvas_attached page 15000),
        expect 97 (mapRenderTime page < 15000),
        (let performanceMetrics = evaluate_performanceMetrics (pf_navigation page)
         in expect 111 (ttfb performanceMetrics < 2000))]"

section \<open>Scenario: should display venue data after loading (lines 114-139)\<close>

text \<open>
  \<^verbatim>\<open>btnText?.match(/(\d+)/)\<close>: the leftmost longest run of the digits 0 to 9, or no match;
  no match either when the text is \<^verbatim>\<open>null\<close>.
\<close>

definition is_digit :: "char \<Rightarrow> bool" where
  "is_digit c = (c \<in> set ''0123456789'')"

definition match_digits :: "string option \<Rightarrow> string option" where
  "match_digits btnText =
     (case btnText of
        None \<Rightarrow> None
      | Some s \<Rightarrow>
          (case dropWhile (\<lambda>c. \<not> is_digit c) s of
             [] \<Rightarrow> None
           | d # rest \<Rightarrow> Some (takeWhile is_digit (d # rest))))"

text \<open>
  \<^verbatim>\<open>parseInt(s, 10)\<close> on a string that starts with a digit: the value of its leading
  digits. (The scenario only calls it on a run of digits; JavaScript rounds a value
  beyond 2^53 to a floating-point number, which leaves its comparison with 0 as it is.)
\<close>

definition digit_value :: "char \<Rightarrow> nat" where
  "digit_value c = of_char c - 48"

definition parseInt :: "string \<Rightarrow> nat" where
  "parseInt s = foldl (\<lambda>n c. 10 * n + digit_value c) 0 (takeWhile is_digit s)"

record venue_page =
  vn_goto :: bool                           \<comment> \<open>line 115\<close>
  vn_networkidle :: bool                    \<comment> \<open>line 116\<close>
  vn_loadingText_count :: nat               \<comment> \<open>line 119: text \<^verbatim>\<open>Loading venues...\<close>\<close>
  vn_loadingText_hidden :: "nat \<Rightarrow> bool"     \<comment> \<open>line 120\<close>
  vn_showVenuesBtn_count :: nat             \<comment> \<open>line 127: buttons named \<^verbatim>\<open>/show.*venue/i\<close>\<close>
  vn_btnText :: "string option settled"     \<comment> \<open>line 128: the button's text content\<close>
  vn_imageCount :: nat                      \<comment> \<open>line 137\<close>

definition should_display_venue_data_after_loading :: "venue_page \<Rightarrow> outcome" where
  "should_display_venue_data_after_loading page =
     steps
       [await 115 (vn_goto page),
        await 116 (vn_networkidle page),
        if vn_loadingText_count page > 0 then
          expect 120 (vn_loadingText_hidden page 15000)
        else Inr (),
        if vn_showVenuesBtn_count page > 0 then
          awaited 128 (vn_btnText page) (\<lambda>btnText.
            case match_digits btnText of
              Some digits \<Rightarrow> (let venueCount = parseInt digits in expect 132 (venueCount > 0))
            | None \<Rightarrow> Inr ())
        else Inr (),
        expect 138 (vn_imageCount page > 0)]"

section \<open>Scenario: should have correct navigation links in header (lines 141-164)\<close>

text \<open>
  The expected navigation items, each the source of the regular expression (matched
  without regard to case) that a link's accessible name is matched with.
\<close>

definition expectedNavItems :: "string list" where
  "expectedNavItems = [''pool.*beach'', ''gym|fitness'', ''family'', ''dining'']"

record nav_page =
  nv_goto :: bool                           \<comment> \<open>line 142\<close>
  nv_link :: "string \<Rightarrow> element list"       \<comment> \<open>line 152: the links whose name matches the item\<close>
  nv_joinLink :: "element list"             \<comment> \<open>line 160: the links named \<^verbatim>\<open>/join now/i\<close>\<close>

definition check_navItem :: "nav_page \<Rightarrow> string \<Rightarrow> outcome" where
  "check_navItem page navItem =
     (let link = first_of (nv_link page navItem) in
      steps
        [expect 153 (toBeAttached link),
         awaited 155 (getAttribute_href link) (\<lambda>href.
           steps [expect 156 (truthy href), expect 157 (toMatch_leading_slash href)])])"

definition should_have_correct_navigation_links_in_header :: "nav_page \<Rightarrow> outcome" where
  "should_have_correct_navigation_links_in_header page =
     steps
       ([await 142 (nv_goto page)]
        @ map (check_navItem page) expectedNavItems
        @ [let joinLink = first_of (nv_joinLink page) in
           steps
             [expect 161 (toBeVisible joinLink default_timeout),
              awaited 162 (getAttribute_href joinLink) (\<lambda>joinHref.
                expect 163 (truthy joinHref))]])"

section \<open>Scenario: should display correctly on mobile viewport (lines 166-192)\<close>

text \<open>
  This scenario takes the browser, not a page: it creates a context of its own with the
  options below, and the page it then reads is the browser's answer to those options.
  The session counts the contexts the scenario has created and not closed.
\<close>

record context_options =
  viewport_width :: nat
  viewport_height :: nat
  userAgent :: string

record mobile_page =
  mb_goto :: bool                           \<comment> \<open>line 174\<close>
  mb_networkidle :: bool                    \<comment> \<open>line 175\<close>
  mb_menuToggle_count :: nat                \<comment> \<open>line 180\<close>
  mb_mapCanvas :: "element list"            \<comment> \<open>line 183: \<^verbatim>\<open>.mapboxgl-map, .mapboxgl-canvas\<close>\<close>
  mb_scrollWidth :: int                     \<comment> \<open>line 187: \<^verbatim>\<open>document.documentElement.scrollWidth\<close>\<close>
  mb_innerWidth :: int                      \<comment> \<open>line 187: \<^verbatim>\<open>window.innerWidth\<close>\<close>

record session =
  open_contexts :: nat

definition newContext :: "session \<Rightarrow> session" where
  "newContext s = s\<lparr>open_contexts := open_contexts s + 1\<rparr>"

definition context_close :: "session \<Rightarrow> session" where
  "context_close s = s\<lparr>open_contexts := open_contexts s - 1\<rparr>"

definition mobile_context_options :: context_options where
  "mobile_context_options =
     \<lparr> viewport_width = 375,
       viewport_height = 812,
       userAgent = ''Mozilla/5.0 (iPhone; CPU iPhone OS 16_0 like Mac OS X) AppleWebKit/605.1.15 (KHTML, like Gecko) Version/16.0 Mobile/15E148 Safari/604.1'' \<rparr>"

definition mobile_body :: "mobile_page \<Rightarrow> outcome" where
  "mobile_body page =
     steps
       [await 174 (mb_goto page),
        await 175 (mb_networkidle page),
        (let menuVisible = (mb_menuToggle_count page > 0) in expect 181 menuVisible),
        expect 184 (toBeVisible (first_of (mb_mapCanvas page)) 15000),
        (let hasHorizontalOverflow = (mb_scrollWidth page > mb_innerWidth page)
         in expect 189 (\<not> hasHorizontalOverflow))]"

definition should_display_correctly_on_mobile_viewport ::
  "(context_options \<Rightarrow> mobile_page) \<Rightarrow> session \<Rightarrow> outcome \<times> session" where
  "should_display_correctly_on_mobile_viewport browser s =
     (let opened = newContext s;
          page = browser mobile_context_options
      in case mobile_body page of
           Inl thrown \<Rightarrow> (Inl thrown, opened)
         | Inr _ \<Rightarrow> (Inr (), context_close opened))"

section \<open>Example pages\<close>

text \<open>Pages on which the scenarios are run below.\<close>

definition shown_after :: "nat \<Rightarrow> string option \<Rightarrow> element" where
  "shown_after ms h = \<lparr> visible_within = (\<lambda>timeout. ms \<le> timeout), href = h \<rparr>"

definition core_page_ok :: core_page where
  "core_page_ok =
     \<lparr> core_goto = True,
       core_header = [shown_after 200 None],
       core_mapCanvas = [shown_after 6000 None, shown_after 6500 None],
       core_filters =
         [shown_after 300 None, shown_after 300 None, shown_after 300 None,
          shown_after 300 None, shown_after 300 None],
       core_joinCTA = [shown_after 200 (Some ''/join''), shown_after 200 (Some ''/join'')] \<rparr>"

text \<open>
  A page whose only filter button is in the document when it is counted, and is not
  rendered as visible, whatever the time allowed.
\<close>

definition never_shown :: element where
  "never_shown = \<lparr> visible_within = (\<lambda>timeout. False), href = None \<rparr>"

definition core_page_filter_never_shown :: core_page where
  "core_page_filter_never_shown = core_page_ok \<lparr> core_filters := [never_shown] \<rparr>"



definition perf_page_ok :: perf_page where
  "perf_page_ok =
     \<lparr> pf_Date_now_86 = 1700000000000,
       pf_goto = True,
       pf_Date_now_89 = 1700000002100,
       pf_mapCanvas_attached = (\<lambda>timeout. 3000 \<le> timeout),
       pf_Date_now_95 = 1700000005100,
       pf_navigation =
         \<lparr> startTime = 0, requestStart = 40, responseStart = 400,
           domContentLoadedEventEnd = 2000, loadEventEnd = 9000 \<rparr> \<rparr>"

text \<open>
  A page load that spends 2.5 seconds on redirects and connection set-up before the
  request is sent, and whose first byte arrives one second after that.
\<close>

definition perf_page_slow_connect :: perf_page where
  "perf_page_slow_connect =
     \<lparr> pf_Date_now_86 = 1700000000000,
       pf_goto = True,
       pf_Date_now_89 = 1700000005000,
       pf_mapCanvas_attached = (\<lambda>timeout. 3000 \<le> timeout),
       pf_Date_now_95 = 1700000008000,
       pf_navigation =
         \<lparr> startTime = 0, requestStart = 2500, responseStart = 3500,
           domContentLoadedEventEnd = 4900, loadEventEnd = 9000 \<rparr> \<rparr>"



definition venue_page_ok :: venue_page where
  "venue_page_ok =
     \<lparr> vn_goto = True,
       vn_networkidle = True,
       vn_loadingText_count = 1,
       vn_loadingText_hidden = (\<lambda>timeout. 2000 \<le> timeout),
       vn_showVenuesBtn_count = 1,
       vn_btnText = Resolved (Some ''Show 48 venues''),
       vn_imageCount = 48 \<rparr>"

text \<open>A page whose button is named "Show venues" and shows no number.\<close>

definition venue_page_no_number :: venue_page where
  "venue_page_no_number =
     venue_page_ok \<lparr> vn_loadingText_count := 0, vn_btnText := Resolved (Some ''Show venues'') \<rparr>"

definition nav_targets :: "(string \<times> string) list" where
  "nav_targets =
     [(''pool.*beach'', ''/pool-and-beach''), (''gym|fitness'', ''/fitness''),
      (''family'', ''/family-activities''), (''dining'', ''/dining'')]"

text \<open>A page with one link for every navigation item, in its header.\<close>

definition nav_page_ok :: nav_page where
  "nav_page_ok =
     \<lparr> nv_goto = True,
       nv_link = (\<lambda>navItem. case map_of nav_targets navItem of
                    None \<Rightarrow> []
                  | Some target \<Rightarrow> [shown_after 200 (Some target)]),
       nv_joinLink = [shown_after 200 (Some ''https://join.privilee.ae/'')] \<rparr>"

text \<open>The same page with every navigation link repeated in its footer.\<close>

definition nav_page_header_and_footer :: nav_page where
  "nav_page_header_and_footer =
     nav_page_ok
       \<lparr> nv_link := (\<lambda>navItem. nv_link nav_page_ok navItem @ nv_link nav_page_ok navItem) \<rparr>"

text \<open>
  A site that shows a menu toggle below 768 pixels of width and fits its content to the
  viewport, and a site laid out for the desktop only, with no menu toggle.
\<close>

definition responsive_site :: "context_options \<Rightarrow> mobile_page" where
  "responsive_site options =
     \<lparr> mb_goto = True,
       mb_networkidle = True,
       mb_menuToggle_count = (if viewport_width options < 768 then 1 else 0),
       mb_mapCanvas = [shown_after 6000 None, shown_after 6500 None],
       mb_scrollWidth = int (viewport_width options),
       mb_innerWidth = int (viewport_width options) \<rparr>"

definition desktop_only_site :: "context_options \<Rightarrow> mobile_page" where
  "desktop_only_site options =
     \<lparr> mb_goto = True,
       mb_networkidle = True,
       mb_menuToggle_count = 0,
       mb_mapCanvas = [shown_after 6000 None, shown_after 6500 None],
       mb_scrollWidth = max 1024 (int (viewport_width options)),
       mb_innerWidth = int (viewport_width options) \<rparr>"

section \<open>Sequencing\<close>

lemma expect_passes: "(expect line ok = Inr ()) = ok"
  by (simp add: expect_def)

lemma await_passes: "(await line resolved = Inr ()) = resolved"
  by (simp add: await_def)

lemma awaited_passes:
  "(awaited line v rest = Inr ()) = (\<exists>x. v = Resolved x \<and> rest x = Inr ())"
  by (cases v) (simp_all add: awaited_def)

lemma steps_Cons_passes: "(steps (s # ss) = Inr ()) = (s = Inr () \<and> steps ss = Inr ())"
  by (cases s) simp_all

declare steps.simps(2) [simp del]

lemma steps_append_passes:
  "(steps (xs @ ys) = Inr ()) = (steps xs = Inr () \<and> steps ys = Inr ())"
  by (induction xs) (simp_all add: steps_Cons_passes)

lemma steps_map_passes: "(steps (map f xs) = Inr ()) = (\<forall>x\<in>set xs. f x = Inr ())"
  by (induction xs) (simp_all add: steps_Cons_passes)

lemmas passes =
  expect_passes await_passes awaited_passes steps_Cons_passes steps_append_passes
  steps_map_passes

lemma toBeVisible_first:
  "toBeVisible (first_of xs) timeout = (\<exists>x rest. xs = x # rest \<and> visible_within x timeout)"
  by (cases xs) (simp_all add: toBeVisible_def first_of_def)

section \<open>Properties of the run configuration\<close>

lemma truthy_iff: "truthy v = (v \<noteq> None \<and> v \<noteq> Some [])"
  by (cases v) (simp_all add: truthy_def)

text \<open>
  Claim C5. The CI flag counts as set when \<^verbatim>\<open>process.env.CI\<close> is a non-empty string
  (JavaScript truthiness, which is what the configuration tests). Then, for every value
  of the variable: \<^verbatim>\<open>forbidOnly\<close> is on exactly when the flag is set; \<^verbatim>\<open>retries\<close> is 1
  when it is set and 0 otherwise; \<^verbatim>\<open>workers\<close> is 1 when it is set and undefined (the
  runner's default for the host) otherwise.
\<close>

theorem config_follows_ci_flag:
  "forbidOnly (defineConfig CI) = (CI \<noteq> None \<and> CI \<noteq> Some [])
   \<and> retries (defineConfig CI) = (if CI \<noteq> None \<and> CI \<noteq> Some [] then 1 else 0)
   \<and> workers (defineConfig CI) = (if CI \<noteq> None \<and> CI \<noteq> Some [] then Some 1 else None)"
  by (simp add: defineConfig_def truthy_iff)

section \<open>Properties of the core-elements scenario\<close>

lemma core_elements_passes_iff:
  "(should_load_page_with_all_core_UI_elements_visible page = Inr ()) =
     (core_goto page
      \<and> toBeVisible (first_of (core_header page)) default_timeout
      \<and> toBeVisible (first_of (core_mapCanvas page)) 15000
      \<and> 1 \<le> length (core_filters page)
      \<and> toBeVisible (first_of (core_joinCTA page)) default_timeout)"
  by (simp add: should_load_page_with_all_core_UI_elements_visible_def passes)

lemma core_page_filter_never_shown_passes:
  "should_load_page_with_all_core_UI_elements_visible core_page_filter_never_shown = Inr ()"
  by (simp add: core_elements_passes_iff core_page_filter_never_shown_def core_page_ok_def
      toBeVisible_first shown_after_def default_timeout_def)

text \<open>
  Claim C3, as stated, has at least one category-filter control visible within its
  timeout on every passing run. It fails on \<open>core_page_filter_never_shown\<close>: the one
  filter button of that page is counted at line 16, it is visible neither within the
  default timeout nor within 15000 ms, and the scenario passes.
\<close>

theorem core_elements_filter_visible_counterexample:
  "should_load_page_with_all_core_UI_elements_visible core_page_filter_never_shown = Inr ()
   \<and> core_filters core_page_filter_never_shown = [never_shown]
   \<and> \<not> visible_within never_shown default_timeout
   \<and> \<not> visible_within never_shown 15000"
  using core_page_filter_never_shown_passes
  by (simp add: core_page_filter_never_shown_def never_shown_def)

text \<open>
  Claim C3, amended. On a load of \<^verbatim>\<open>/map\<close> the core-elements scenario passes only if the
  load resolved, the first header is visible within the default timeout, the first map
  surface is visible within its 15000 ms timeout, the first join link is visible within
  the default timeout, and the category-filter locator resolves to at least one control
  at the moment it is counted. The filter controls are counted, at once; the scenario
  does not wait for them and does not ask whether they are visible.
\<close>

theorem core_elements_pass_only_if_visible_and_filter_counted:
  assumes "should_load_page_with_all_core_UI_elements_visible page = Inr ()"
  shows "core_goto page
    \<and> (\<exists>header rest. core_header page = header # rest \<and> visible_within header default_timeout)
    \<and> (\<exists>surface rest. core_mapCanvas page = surface # rest \<and> visible_within surface 15000)
    \<and> 1 \<le> length (core_filters page)
    \<and> (\<exists>join rest. core_joinCTA page = join # rest \<and> visible_within join default_timeout)"
  using assms by (simp add: core_elements_passes_iff toBeVisible_first)

lemma core_page_ok_passes:
  "should_load_page_with_all_core_UI_elements_visible core_page_ok = Inr ()"
  by (simp add: core_elements_passes_iff core_page_ok_def toBeVisible_first
      shown_after_def default_timeout_def)

theorem core_elements_pass_only_if_visible_and_filter_counted_witness:
  "should_load_page_with_all_core_UI_elements_visible core_page_ok = Inr ()
   \<and> (core_goto core_page_ok
    \<and> (\<exists>header rest. core_header core_page_ok = header # rest
          \<and> visible_within header default_timeout)
    \<and> (\<exists>surface rest. core_mapCanvas core_page_ok = surface # rest
          \<and> visible_within surface 15000)
    \<and> 1 \<le> length (core_filters core_page_ok)
    \<and> (\<exists>join rest. core_joinCTA core_page_ok = join # rest
          \<and> visible_within join default_timeout))"
  by (rule conjI [OF core_page_ok_passes
        core_elements_pass_only_if_visible_and_filter_counted [OF core_page_ok_passes]])

section \<open>Properties of the map scenario\<close>






section \<open>Properties of the load-performance scenario\<close>

lemma load_performance_passes_iff:
  "(should_load_within_acceptable_performance_thresholds page = Inr ()) =
     (pf_goto page
      \<and> domLoadTime page < 8000
      \<and> pf_mapCanvas_attached page 15000
      \<and> mapRenderTime page < 15000
      \<and> ttfb (evaluate_performanceMetrics (pf_navigation page)) < 2000)"
  by (simp add: should_load_within_acceptable_performance_thresholds_def passes)

text \<open>
  Claim C1, as stated, measures the time to first byte from navigation start, as it
  does the other two times. It fails on the page load \<open>perf_page_slow_connect\<close>: the
  scenario passes there, and the first byte arrives 3500 ms after navigation start.
\<close>

theorem load_performance_ttfb_from_navigation_start_counterexample:
  "should_load_within_acceptable_performance_thresholds perf_page_slow_connect = Inr ()
   \<and> \<not> (responseStart (pf_navigation perf_page_slow_connect)
          - startTime (pf_navigation perf_page_slow_connect) < 2000)"
  by (simp add: load_performance_passes_iff perf_page_slow_connect_def domLoadTime_def
      mapRenderTime_def evaluate_performanceMetrics_def)

text \<open>
  Claim C1, amended. The load-performance scenario passes only if, on one page load:
  the clock read when the navigation has reached DOM-content-loaded is less than 8000 ms
  after the clock read just before the navigation was started; the map canvas attaches
  within its 15000 ms timeout and the clock read then is less than 15000 ms after that
  same first reading; and the time to first byte, which is the navigation entry's
  \<^verbatim>\<open>responseStart\<close> minus its \<^verbatim>\<open>requestStart\<close>, is less than 2000 ms.
\<close>

theorem load_performance_pass_only_if_under_thresholds:
  assumes "should_load_within_acceptable_performance_thresholds page = Inr ()"
  shows "pf_Date_now_89 page - pf_Date_now_86 page < 8000
    \<and> pf_mapCanvas_attached page 15000
    \<and> pf_Date_now_95 page - pf_Date_now_86 page < 15000
    \<and> responseStart (pf_navigation page) - requestStart (pf_navigation page) < 2000"
  using assms
  by (simp add: load_performance_passes_iff domLoadTime_def mapRenderTime_def
      evaluate_performanceMetrics_def)

lemma perf_page_ok_passes:
  "should_load_within_acceptable_performance_thresholds perf_page_ok = Inr ()"
  by (simp add: load_performance_passes_iff perf_page_ok_def domLoadTime_def
      mapRenderTime_def evaluate_performanceMetrics_def)

theorem load_performance_pass_only_if_under_thresholds_witness:
  "should_load_within_acceptable_performance_thresholds perf_page_ok = Inr ()
   \<and> (pf_Date_now_89 perf_page_ok - pf_Date_now_86 perf_page_ok < 8000
    \<and> pf_mapCanvas_attached perf_page_ok 15000
    \<and> pf_Date_now_95 perf_page_ok - pf_Date_now_86 perf_page_ok < 15000
    \<and> responseStart (pf_navigation perf_page_ok)
        - requestStart (pf_navigation perf_page_ok) < 2000)"
  by (rule conjI [OF perf_page_ok_passes
        load_performance_pass_only_if_under_thresholds [OF perf_page_ok_passes]])

text \<open>
  Claim C10. The load-complete time is computed from the navigation entry, as
  \<^verbatim>\<open>loadEventEnd\<close> minus \<^verbatim>\<open>startTime\<close>, and the outcome of the scenario does not depend
  on it: two runs that differ only in \<^verbatim>\<open>loadEventEnd\<close> have the same outcome, whatever
  the two load-complete times are.
\<close>

theorem load_performance_ignores_loadComplete:
  "loadComplete (evaluate_performanceMetrics (navigation\<lparr>loadEventEnd := t\<rparr>))
     = t - startTime navigation
   \<and> should_load_within_acceptable_performance_thresholds
       (page\<lparr>pf_navigation := (pf_navigation page)\<lparr>loadEventEnd := t\<rparr>\<rparr>)
     = should_load_within_acceptable_performance_thresholds page"
  by (simp add: should_load_within_acceptable_performance_thresholds_def
      evaluate_performanceMetrics_def domLoadTime_def mapRenderTime_def)

section \<open>Properties of the filter-toggling scenario\<close>







section \<open>Properties of the venue-data scenario\<close>

lemma digit_value_pos: "is_digit c \<Longrightarrow> (0 < digit_value c) = (c \<noteq> CHR ''0'')"
  by (auto simp add: is_digit_def digit_value_def)

lemma foldl_digits_pos:
  "(0 < foldl (\<lambda>n c. 10 * n + digit_value c) a ds)
     = (0 < a \<or> (\<exists>c\<in>set ds. 0 < digit_value c))"
  by (induction ds arbitrary: a) auto

text \<open>The parsed count is positive exactly when one of the leading digits is not 0.\<close>

lemma parseInt_pos: "(0 < parseInt s) = (\<exists>c\<in>set (takeWhile is_digit s). c \<noteq> CHR ''0'')"
  unfolding parseInt_def foldl_digits_pos
  using digit_value_pos by (auto dest: set_takeWhileD)

text \<open>The match fails exactly on a text with no digit.\<close>

lemma match_digits_None:
  "(match_digits (Some s) = None) = (\<forall>c\<in>set s. \<not> is_digit c)"
proof -
  define rest where "rest = dropWhile (\<lambda>c. \<not> is_digit c) s"
  have "match_digits (Some s) =
      (case rest of [] \<Rightarrow> None | d # r \<Rightarrow> Some (takeWhile is_digit (d # r)))"
    by (simp add: match_digits_def rest_def)
  then have "(match_digits (Some s) = None) = (rest = [])"
    by (cases rest) simp_all
  also have "\<dots> = (\<forall>c\<in>set s. \<not> is_digit c)"
    unfolding rest_def by (rule dropWhile_eq_Nil_conv)
  finally show ?thesis .
qed

text \<open>
  A match is the first run of digits of the text, taken whole: nothing before it is a
  digit, and what follows it does not start with one.
\<close>

lemma match_digits_Some:
  assumes "match_digits (Some s) = Some ds"
  shows "ds \<noteq> [] \<and> (\<forall>c\<in>set ds. is_digit c)
     \<and> (\<exists>before after. s = before @ ds @ after \<and> (\<forall>c\<in>set before. \<not> is_digit c)
           \<and> (after = [] \<or> \<not> is_digit (hd after)))"
proof -
  define rest where "rest = dropWhile (\<lambda>c. \<not> is_digit c) s"
  define before where "before = takeWhile (\<lambda>c. \<not> is_digit c) s"
  define after where "after = dropWhile is_digit rest"
  from assms have ne: "rest \<noteq> []" and ds: "ds = takeWhile is_digit rest"
    unfolding rest_def
    by (cases "dropWhile (\<lambda>c. \<not> is_digit c) s";
        simp add: match_digits_def del: takeWhile.simps)+
  have "\<not> \<not> is_digit (hd rest)"
    unfolding rest_def using ne [unfolded rest_def] by (rule hd_dropWhile)
  then have "ds \<noteq> []"
    using ne by (cases rest) (simp_all add: ds)
  moreover have "\<forall>c\<in>set ds. is_digit c"
    unfolding ds by (blast dest: set_takeWhileD)
  moreover have "s = before @ ds @ after"
    by (simp add: before_def ds after_def rest_def)
  moreover have "\<forall>c\<in>set before. \<not> is_digit c"
    unfolding before_def by (blast dest: set_takeWhileD)
  moreover have "after = [] \<or> \<not> is_digit (hd after)"
    unfolding after_def using hd_dropWhile [of is_digit rest] by blast
  ultimately show ?thesis by blast
qed

lemma venue_passes_iff:
  "(should_display_venue_data_after_loading page = Inr ()) =
     (vn_goto page \<and> vn_networkidle page
      \<and> (if 0 < vn_loadingText_count page then vn_loadingText_hidden page 15000 else True)
      \<and> (if 0 < vn_showVenuesBtn_count page
         then \<exists>btnText. vn_btnText page = Resolved btnText
                \<and> (case match_digits btnText of
                      Some digits \<Rightarrow> 0 < parseInt digits
                    | None \<Rightarrow> True)
         else True)
      \<and> 0 < vn_imageCount page)"
  by (simp add: should_display_venue_data_after_loading_def passes split: option.split)

lemma venue_page_no_number_passes:
  "should_display_venue_data_after_loading venue_page_no_number = Inr ()"
  by (simp add: venue_passes_iff venue_page_no_number_def venue_page_ok_def
      match_digits_def is_digit_def)

text \<open>
  Claim C6, as stated, asks for a positive number N parsed from the label whenever the
  control exists. It fails on \<open>venue_page_no_number\<close>: the control exists, its text
  has no digit, so no N is parsed, and the scenario passes.
\<close>

theorem venue_count_always_parsed_counterexample:
  "should_display_venue_data_after_loading venue_page_no_number = Inr ()
   \<and> 0 < vn_showVenuesBtn_count venue_page_no_number
   \<and> vn_btnText venue_page_no_number = Resolved (Some ''Show venues'')
   \<and> match_digits (Some ''Show venues'') = None"
  using venue_page_no_number_passes
  by (simp add: venue_page_no_number_def venue_page_ok_def match_digits_def is_digit_def)

text \<open>
  Claim C6, amended. The venue-data scenario passes only if: the "Loading venues..."
  indicator, when it is on the page, is hidden within 15000 ms; when a "show ... venue"
  button is on the page, its text content is read and, if that text holds a run of
  decimal digits, the first such run read as a decimal number is greater than 0 (a text
  without digits is accepted); and at least one image element is on the page.
\<close>

theorem venue_pass_only_if_data_shown:
  assumes "should_display_venue_data_after_loading page = Inr ()"
  shows "(0 < vn_loadingText_count page \<longrightarrow> vn_loadingText_hidden page 15000)
    \<and> (0 < vn_showVenuesBtn_count page \<longrightarrow>
         (\<exists>btnText. vn_btnText page = Resolved btnText
            \<and> (\<forall>digits. match_digits btnText = Some digits \<longrightarrow> 0 < parseInt digits)))
    \<and> 0 < vn_imageCount page"
  using assms by (auto simp add: venue_passes_iff split: if_splits)

lemma venue_page_ok_passes:
  "should_display_venue_data_after_loading venue_page_ok = Inr ()"
  by (simp add: venue_passes_iff venue_page_ok_def match_digits_def is_digit_def
      parseInt_def digit_value_def)

theorem venue_pass_only_if_data_shown_witness:
  "should_display_venue_data_after_loading venue_page_ok = Inr ()
   \<and> 0 < vn_loadingText_count venue_page_ok
   \<and> vn_loadingText_hidden venue_page_ok 15000
   \<and> 0 < vn_showVenuesBtn_count venue_page_ok
   \<and> vn_btnText venue_page_ok = Resolved (Some ''Show 48 venues'')
   \<and> match_digits (Some ''Show 48 venues'') = Some ''48''
   \<and> 0 < parseInt ''48''
   \<and> 0 < vn_imageCount venue_page_ok"
proof -
  have loading: "0 < vn_loadingText_count venue_page_ok"
    and button: "0 < vn_showVenuesBtn_count venue_page_ok"
    and label: "vn_btnText venue_page_ok = Resolved (Some ''Show 48 venues'')"
    by (simp_all add: venue_page_ok_def)
  have digits: "match_digits (Some ''Show 48 venues'') = Some ''48''"
    by (simp add: match_digits_def is_digit_def)
  show ?thesis
    using venue_pass_only_if_data_shown [OF venue_page_ok_passes]
      venue_page_ok_passes loading button label digits
    by auto
qed

section \<open>Properties of the navigation-links scenario\<close>

lemma check_navItem_passes_iff:
  "(check_navItem page navItem = Inr ()) =
     (\<exists>link rest target. nv_link page navItem = link # rest
        \<and> href link = Some (CHR ''/'' # target))"
proof (cases "nv_link page navItem")
  case Nil
  then show ?thesis
    by (simp add: check_navItem_def passes first_of_def toBeAttached_def)
next
  case (Cons link rest)
  have "(truthy (href link) \<and> toMatch_leading_slash (href link))
      = (\<exists>target. href link = Some (CHR ''/'' # target))"
    by (auto simp add: truthy_def toMatch_leading_slash_def split: option.splits list.splits)
  with Cons show ?thesis
    by (simp add: check_navItem_def passes first_of_def toBeAttached_def
        getAttribute_href_def)
qed

lemma join_link_passes_iff:
  "(steps
      [expect 161 (toBeVisible (first_of joinLinks) default_timeout),
       awaited 162 (getAttribute_href (first_of joinLinks)) (\<lambda>joinHref.
         expect 163 (truthy joinHref))] = Inr ()) =
     (\<exists>join rest target. joinLinks = join # rest
        \<and> visible_within join default_timeout
        \<and> href join = Some target \<and> target \<noteq> [])"
  by (cases joinLinks)
    (auto simp add: passes first_of_def toBeVisible_def getAttribute_href_def truthy_def
      split: option.splits)

lemma nav_links_passes_iff:
  "(should_have_correct_navigation_links_in_header page = Inr ()) =
     (nv_goto page
      \<and> (\<forall>navItem\<in>set expectedNavItems.
            \<exists>link rest target. nv_link page navItem = link # rest
              \<and> href link = Some (CHR ''/'' # target))
      \<and> (\<exists>join rest target. nv_joinLink page = join # rest
            \<and> visible_within join default_timeout
            \<and> href join = Some target \<and> target \<noteq> []))"
proof -
  have "(should_have_correct_navigation_links_in_header page = Inr ()) =
     (nv_goto page
      \<and> (\<forall>navItem\<in>set expectedNavItems. check_navItem page navItem = Inr ())
      \<and> steps
          [expect 161 (toBeVisible (first_of (nv_joinLink page)) default_timeout),
           awaited 162 (getAttribute_href (first_of (nv_joinLink page))) (\<lambda>joinHref.
             expect 163 (truthy joinHref))] = Inr ())"
    by (simp add: should_have_correct_navigation_links_in_header_def Let_def
        steps_append_passes steps_map_passes steps_Cons_passes await_passes)
  then show ?thesis
    by (simp only: check_navItem_passes_iff join_link_passes_iff)
qed

lemma nav_page_header_and_footer_passes:
  "should_have_correct_navigation_links_in_header nav_page_header_and_footer = Inr ()"
  by (simp add: nav_links_passes_iff nav_page_header_and_footer_def nav_page_ok_def
      expectedNavItems_def nav_targets_def shown_after_def default_timeout_def)

text \<open>
  Claim C2, as stated, has every expected navigation item resolve to exactly one link.
  It fails on \<open>nav_page_header_and_footer\<close>: the scenario passes there, and the item
  \<^verbatim>\<open>/pool.*beach/i\<close> resolves to two links, of which the scenario reads the first.
\<close>

theorem nav_item_exactly_one_link_counterexample:
  "should_have_correct_navigation_links_in_header nav_page_header_and_footer = Inr ()
   \<and> ''pool.*beach'' \<in> set expectedNavItems
   \<and> length (nv_link nav_page_header_and_footer ''pool.*beach'') = 2"
  using nav_page_header_and_footer_passes
  by (simp add: nav_page_header_and_footer_def nav_page_ok_def expectedNavItems_def
      nav_targets_def)

text \<open>
  Claim C2, amended. The navigation-links scenario passes only if every one of the
  expected navigation items (pool/beach, gym/fitness, family, dining, by name pattern)
  resolves to at least one attached link, and the first link it resolves to has an
  \<^verbatim>\<open>href\<close> attribute that starts with a slash (so is not empty); and the first
  join-now link is visible and has a non-empty \<^verbatim>\<open>href\<close>.
\<close>

theorem nav_links_pass_only_if_first_links_root_relative:
  assumes "should_have_correct_navigation_links_in_header page = Inr ()"
  shows "(\<forall>navItem\<in>set expectedNavItems.
            \<exists>link rest target. nv_link page navItem = link # rest
              \<and> href link = Some (CHR ''/'' # target))
    \<and> (\<exists>join rest target. nv_joinLink page = join # rest
          \<and> visible_within join default_timeout
          \<and> href join = Some target \<and> target \<noteq> [])"
  using assms by (simp add: nav_links_passes_iff)

lemma nav_page_ok_passes:
  "should_have_correct_navigation_links_in_header nav_page_ok = Inr ()"
  by (simp add: nav_links_passes_iff nav_page_ok_def expectedNavItems_def nav_targets_def
      shown_after_def default_timeout_def)

theorem nav_links_pass_only_if_first_links_root_relative_witness:
  "should_have_correct_navigation_links_in_header nav_page_ok = Inr ()
   \<and> expectedNavItems = [''pool.*beach'', ''gym|fitness'', ''family'', ''dining'']
   \<and> (\<exists>link rest target. nv_link nav_page_ok ''pool.*beach'' = link # rest
          \<and> href link = Some (CHR ''/'' # target))
   \<and> (\<exists>link rest target. nv_link nav_page_ok ''gym|fitness'' = link # rest
          \<and> href link = Some (CHR ''/'' # target))
   \<and> (\<exists>link rest target. nv_link nav_page_ok ''family'' = link # rest
          \<and> href link = Some (CHR ''/'' # target))
   \<and> (\<exists>link rest target. nv_link nav_page_ok ''dining'' = link # rest
          \<and> href link = Some (CHR ''/'' # target))
   \<and> (\<exists>join rest target. nv_joinLink nav_page_ok = join # rest
          \<and> visible_within join default_timeout
          \<and> href join = Some target \<and> target \<noteq> [])"
  using nav_links_pass_only_if_first_links_root_relative [OF nav_page_ok_passes]
    nav_page_ok_passes
  by (simp add: expectedNavItems_def)

section \<open>Properties of the mobile-viewport scenario\<close>

lemma mobile_body_passes_iff:
  "(mobile_body page = Inr ()) =
     (mb_goto page \<and> mb_networkidle page
      \<and> 0 < mb_menuToggle_count page
      \<and> toBeVisible (first_of (mb_mapCanvas page)) 15000
      \<and> mb_scrollWidth page \<le> mb_innerWidth page)"
  by (simp add: mobile_body_def passes not_less)

lemma mobile_outcome:
  "fst (should_display_correctly_on_mobile_viewport browser s)
     = mobile_body (browser mobile_context_options)"
  by (cases "mobile_body (browser mobile_context_options)")
    (simp_all add: should_display_correctly_on_mobile_viewport_def)

text \<open>
  Claim C8. The mobile scenario reads the page the browser gives for a context with a
  375 by 812 viewport and the user agent of a phone, and it passes only if on that page
  a menu-toggle control exists, the first map surface is visible within 15000 ms, and
  the document's \<^verbatim>\<open>scrollWidth\<close> is at most the window's \<^verbatim>\<open>innerWidth\<close>.
\<close>

theorem mobile_pass_only_if_layout_fits:
  assumes "fst (should_display_correctly_on_mobile_viewport browser s) = Inr ()"
  shows "(let page = browser
            \<lparr> viewport_width = 375,
              viewport_height = 812,
              userAgent = ''Mozilla/5.0 (iPhone; CPU iPhone OS 16_0 like Mac OS X) AppleWebKit/605.1.15 (KHTML, like Gecko) Version/16.0 Mobile/15E148 Safari/604.1'' \<rparr>
          in 0 < mb_menuToggle_count page
           \<and> (\<exists>surface rest. mb_mapCanvas page = surface # rest
                 \<and> visible_within surface 15000)
           \<and> mb_scrollWidth page \<le> mb_innerWidth page)"
  using assms
  by (simp add: mobile_outcome mobile_body_passes_iff toBeVisible_first
      mobile_context_options_def)

lemma responsive_site_passes:
  "fst (should_display_correctly_on_mobile_viewport responsive_site \<lparr>open_contexts = 0\<rparr>)
     = Inr ()"
  by (simp add: mobile_outcome mobile_body_passes_iff toBeVisible_first
      mobile_context_options_def responsive_site_def shown_after_def)

theorem mobile_pass_only_if_layout_fits_witness:
  "fst (should_display_correctly_on_mobile_viewport responsive_site \<lparr>open_contexts = 0\<rparr>)
     = Inr ()
   \<and> (let page = responsive_site
            \<lparr> viewport_width = 375,
              viewport_height = 812,
              userAgent = ''Mozilla/5.0 (iPhone; CPU iPhone OS 16_0 like Mac OS X) AppleWebKit/605.1.15 (KHTML, like Gecko) Version/16.0 Mobile/15E148 Safari/604.1'' \<rparr>
          in 0 < mb_menuToggle_count page
           \<and> (\<exists>surface rest. mb_mapCanvas page = surface # rest
                 \<and> visible_within surface 15000)
           \<and> mb_scrollWidth page \<le> mb_innerWidth page)"
  by (rule conjI [OF responsive_site_passes
        mobile_pass_only_if_layout_fits [OF responsive_site_passes]])

section \<open>Browser contexts left open\<close>

text \<open>
  The mobile scenario is the only one that creates a context. When its body passes, the
  context is closed at line 191 and the session is as it was.
\<close>

lemma mobile_pass_closes_context:
  assumes "fst (should_display_correctly_on_mobile_viewport browser s) = Inr ()"
  shows "snd (should_display_correctly_on_mobile_viewport browser s) = s"
  using assms
  by (cases "mobile_body (browser mobile_context_options)")
    (simp_all add: should_display_correctly_on_mobile_viewport_def newContext_def
      context_close_def)

text \<open>When its body throws, line 191 is not reached and the context stays open.\<close>

lemma mobile_failure_leaves_context_open:
  assumes "fst (should_display_correctly_on_mobile_viewport browser s) = Inl thrown"
  shows "open_contexts (snd (should_display_correctly_on_mobile_viewport browser s))
           = open_contexts s + 1"
  using assms
  by (cases "mobile_body (browser mobile_context_options)")
    (simp_all add: should_display_correctly_on_mobile_viewport_def newContext_def)

text \<open>
  Claim C9 says that every context a scenario creates is closed before the scenario
  ends. On a site without a menu toggle the expectation of line 181 fails, the scenario
  ends there, and the context it created at line 167 is still open.
\<close>

theorem mobile_failed_run_leaves_context_open:
  "should_display_correctly_on_mobile_viewport desktop_only_site \<lparr>open_contexts = 0\<rparr>
     = (Inl (ExpectFailed 181), \<lparr>open_contexts = 1\<rparr>)"
  by (simp add: should_display_correctly_on_mobile_viewport_def mobile_body_def
      desktop_only_site_def newContext_def steps.simps(2) await_def expect_def)

end
